theory Spec2Isabelle
  imports Complex_Main "HOL-Library.Sublist" "HOL-Library.AList"
begin

section \<open>Python values\<close>

text \<open>
  Exceptions are values. Only the exception classes that the modelled code can raise
  are listed.
\<close>

datatype error = AttributeError | IndexError | KeyError | TypeError | ValueError

text \<open>
  A Python float is a finite binary fraction (hence a rational), an infinity or NaN.
  Comparisons with \<open>0.0\<close> are exact on this representation. The two zeros are
  not told apart.
\<close>

datatype pyfloat = Finite rat | PosInf | NegInf | NaN

datatype pyval = PyStr string | PyFloat pyfloat | PyInt int | PyBool bool

section \<open>The heating stage (src/devices/heating\_stage.py)\<close>

text \<open>
  The serial connection \<open>self.ser\<close>: whether it is open, the byte strings handed to
  \<open>write\<close> so far (oldest first), and the receiving side \<open>io\<close>, which only the
  handshake of the base class reads.
\<close>

record 'io serial =
  is_open :: bool
  written :: "string list"
  io :: 'io

record 'io HeatingStage =
  device_name :: string
  port :: string
  baudrate :: int
  timeout :: "pyfloat option"
  heating_timeout :: pyfloat
  is_initialized :: bool
  ser :: "'io serial"

text \<open>
  \<open>check_ack_succ\<close> and \<open>parse_equal_sign\<close> are methods of the base class
  \<open>ArduinoSerialDevice\<close> in \<open>devices/device.py\<close>, and \<open>str\<close> and \<open>float\<close> are
  Python builtins. The operations below take them as parameters:
  \<^item> \<open>check_ack_succ\<close> gets the two timeouts (\<open>None\<close> when the call passes none) and
    the connection, and returns the \<open>(bool, str)\<close> pair and the connection;
  \<^item> \<open>parse_equal_sign\<close> maps a text to a \<open>(bool, str)\<close> pair;
  \<^item> \<open>float_str\<close> is \<open>str\<close> on a float;
  \<^item> \<open>float_of_str\<close> is \<open>float\<close> on a string, \<open>None\<close> when it raises ValueError.
\<close>

type_synonym 'io handshake =
  "(pyfloat \<times> pyfloat) option \<Rightarrow> 'io serial \<Rightarrow> (bool \<times> string) \<times> 'io serial"

definition HeatingStage_init ::
  "string \<Rightarrow> string \<Rightarrow> int \<Rightarrow> pyfloat option \<Rightarrow> pyfloat \<Rightarrow> bool \<Rightarrow> 'io serial \<Rightarrow> 'io HeatingStage" where
  "HeatingStage_init nm prt baud tmo htmo init0 conn =
     \<lparr>device_name = nm, port = prt, baudrate = baud, timeout = tmo,
      heating_timeout = htmo, is_initialized = init0, ser = conn\<rparr>"

definition ser_write :: "string \<Rightarrow> 'io serial \<Rightarrow> 'io serial" where
  "ser_write bytes conn = conn\<lparr>written := written conn @ [bytes]\<rparr>"

definition not_open_msg :: "'io HeatingStage \<Rightarrow> string" where
  "not_open_msg self = ''Serial port '' @ port self @ '' is not open. ''"

definition set_settemp ::
  "(pyfloat \<Rightarrow> string) \<Rightarrow> 'io handshake \<Rightarrow> pyfloat \<Rightarrow> 'io HeatingStage
     \<Rightarrow> (bool \<times> string) \<times> 'io HeatingStage" where
  "set_settemp float_str check_ack_succ temp self =
     (if \<not> is_open (ser self) then ((False, not_open_msg self), self)
      else if \<not> is_initialized self then ((False, ''Heating stage is not initialized.''), self)
      else
        let command = ''>set Ts '' @ float_str temp @ [CHR 0x0A];
            conn = ser_write command (ser self);
            (res, conn') = check_ack_succ None conn
        in (res, self\<lparr>ser := conn'\<rparr>))"

definition set_temp ::
  "(pyfloat \<Rightarrow> string) \<Rightarrow> 'io handshake \<Rightarrow> pyfloat \<Rightarrow> 'io HeatingStage
     \<Rightarrow> (bool \<times> string) \<times> 'io HeatingStage" where
  "set_temp float_str check_ack_succ temp self =
     (if \<not> is_open (ser self) then ((False, not_open_msg self), self)
      else if \<not> is_initialized self then ((False, ''Heating stage is not initialized.''), self)
      else
        let command = ''>set T '' @ float_str temp @ [CHR 0x0A];
            conn = ser_write command (ser self);
            (res, conn') = check_ack_succ (Some (Finite 1, heating_timeout self)) conn
        in (res, self\<lparr>ser := conn'\<rparr>))"

definition pid_on ::
  "'io handshake \<Rightarrow> 'io HeatingStage \<Rightarrow> (bool \<times> string) \<times> 'io HeatingStage" where
  "pid_on check_ack_succ self =
     (if \<not> is_open (ser self) then ((False, not_open_msg self), self)
      else if \<not> is_initialized self then ((False, ''Heating stage is not initialized.''), self)
      else
        let command = ''>pidon'' @ [CHR 0x0A];
            conn = ser_write command (ser self);
            (res, conn') = check_ack_succ None conn
        in (res, self\<lparr>ser := conn'\<rparr>))"

definition pid_off ::
  "'io handshake \<Rightarrow> 'io HeatingStage \<Rightarrow> (bool \<times> string) \<times> 'io HeatingStage" where
  "pid_off check_ack_succ self =
     (if \<not> is_open (ser self) then ((False, not_open_msg self), self)
      else
        let command = ''>pidoff'' @ [CHR 0x0A];
            conn = ser_write command (ser self);
            (res, conn') = check_ack_succ None conn
        in (res, self\<lparr>ser := conn'\<rparr>))"

text \<open>
  \<open>is_pid_on\<close> and \<open>temperature\<close> return a \<open>(bool, Union[...])\<close> pair, so the
  second component is a \<open>pyval\<close>. Neither tests \<open>_is_initialized\<close>.
\<close>

definition is_pid_on ::
  "'io handshake \<Rightarrow> (string \<Rightarrow> bool \<times> string) \<Rightarrow> 'io HeatingStage
     \<Rightarrow> (bool \<times> pyval) \<times> 'io HeatingStage" where
  "is_pid_on check_ack_succ parse_equal_sign self =
     (if \<not> is_open (ser self) then ((False, PyStr (not_open_msg self)), self)
      else
        let command = ''>pr pid'' @ [CHR 0x0A];
            conn = ser_write command (ser self);
            ((was_successful, comment), conn') = check_ack_succ None conn;
            self' = self\<lparr>ser := conn'\<rparr>
        in if \<not> was_successful then ((was_successful, PyStr comment), self')
           else
             let (has_on_off, pid_state) = parse_equal_sign comment
             in if \<not> has_on_off
                then ((has_on_off, PyStr ''Message from device did not contain PID state.''), self')
                else ((True, PyBool (pid_state = ''ON'')), self'))"

text \<open>
  \<open>temperature\<close> ends in \<open>float(temperature_str)\<close>, which raises ValueError on a
  string that is not a float literal; the exception leaves the method, so the result is
  an exception or a pair, together with the device as it is at that moment.
\<close>

definition temperature ::
  "'io handshake \<Rightarrow> (string \<Rightarrow> bool \<times> string) \<Rightarrow> (string \<Rightarrow> pyfloat option)
     \<Rightarrow> 'io HeatingStage \<Rightarrow> (error + bool \<times> pyval) \<times> 'io HeatingStage" where
  "temperature check_ack_succ parse_equal_sign float_of_str self =
     (if \<not> is_open (ser self) then (Inr (False, PyStr (not_open_msg self)), self)
      else
        let command = ''>pr T'' @ [CHR 0x0A];
            conn = ser_write command (ser self);
            ((was_successful, comment), conn') = check_ack_succ None conn;
            self' = self\<lparr>ser := conn'\<rparr>
        in if \<not> was_successful then (Inr (was_successful, PyStr comment), self')
           else
             let (has_temperature, temperature_str) = parse_equal_sign comment
             in if \<not> has_temperature
                then (Inr (has_temperature,
                           PyStr ''Message from device did not contain temperature.''), self')
                else (case float_of_str temperature_str of
                        None \<Rightarrow> (Inl ValueError, self')
                      | Some t \<Rightarrow> (Inr (True, PyFloat t), self')))"

definition initialize ::
  "(pyfloat \<Rightarrow> string) \<Rightarrow> 'io handshake \<Rightarrow> 'io HeatingStage
     \<Rightarrow> (bool \<times> string) \<times> 'io HeatingStage" where
  "initialize float_str check_ack_succ self =
     (let self1 = self\<lparr>is_initialized := True\<rparr>;
          ((was_set, comment), self2) = set_settemp float_str check_ack_succ (Finite 26) self1
      in if \<not> was_set then ((was_set, comment), self2\<lparr>is_initialized := False\<rparr>)
         else
           let ((was_turned_on, comment'), self3) = pid_on check_ack_succ self2
           in if \<not> was_turned_on
              then ((was_turned_on, comment'), self3\<lparr>is_initialized := False\<rparr>)
              else ((True, ''Heating stage successfully initialized by setting to 26 C and turning PID ON.''),
                    self3))"

definition deinitialize ::
  "(pyfloat \<Rightarrow> string) \<Rightarrow> 'io handshake \<Rightarrow> bool \<Rightarrow> 'io HeatingStage
     \<Rightarrow> (bool \<times> string) \<times> 'io HeatingStage" where
  "deinitialize float_str check_ack_succ reset_init_flag self =
     (let self1 = self\<lparr>is_initialized := True\<rparr>;
          ((was_set, comment), self2) = set_settemp float_str check_ack_succ (Finite 24) self1
      in if \<not> was_set then ((was_set, comment), self2\<lparr>is_initialized := False\<rparr>)
         else
           let ((was_turned_off, comment'), self3) = pid_off check_ack_succ self2
           in if \<not> was_turned_off
              then ((was_turned_off, comment'), self3\<lparr>is_initialized := False\<rparr>)
              else ((True, ''Heating stage successfully deinitialized by setting to 24 C and turning PID OFF.''),
                    if reset_init_flag then self3\<lparr>is_initialized := False\<rparr> else self3))"

text \<open>
  Modelled from the spec: \<open>parse_equal_sign\<close> of \<open>devices/device.py\<close>, which is not
  among the sources. The spec: it "extracts the value portion of a single
  \<open>key=value\<close>-shaped fragment; returns \<open>(false, "")\<close>-equivalent when no \<open>=\<close> is
  present". The value is taken to start after the first \<open>=\<close>.
\<close>

definition parse_equal_sign_spec :: "string \<Rightarrow> bool \<times> string" where
  "parse_equal_sign_spec text =
     (case dropWhile (\<lambda>c. c \<noteq> CHR ''='') text of
        [] \<Rightarrow> (False, [])
      | _ # v \<Rightarrow> (True, v))"

text \<open>
  A scripted connection for the examples: the receiving side is the list of results the
  handshake will report, one per call; an exhausted script reports a missing
  acknowledgment.
\<close>

definition scripted :: "(bool \<times> string) list handshake" where
  "scripted tmo conn =
     (case io conn of
        [] \<Rightarrow> ((False, ''No acknowledgment received.''), conn)
      | r # rs \<Rightarrow> (r, conn\<lparr>io := rs\<rparr>))"

text \<open>
  The builtins on the values of the examples: \<open>str(26.0) == '26.0'\<close>,
  \<open>str(2.5) == '2.5'\<close> and so on, and \<open>float('26.5') == 26.5\<close>, while
  \<open>float('abc')\<close> raises ValueError. Other arguments do not occur in the examples.
\<close>

definition float_str_sample :: "pyfloat \<Rightarrow> string" where
  "float_str_sample x =
     (if x = Finite 26 then ''26.0'' else if x = Finite 24 then ''24.0''
      else if x = Finite (5 / 2) then ''2.5'' else if x = Finite 0 then ''0.0''
      else if x = Finite (- 1) then ''-1.0'' else ''nan'')"

definition float_of_str_sample :: "string \<Rightarrow> pyfloat option" where
  "float_of_str_sample s = (if s = ''26.5'' then Some (Finite (53 / 2)) else None)"

definition stage0 :: "bool \<Rightarrow> bool \<Rightarrow> (bool \<times> string) list \<Rightarrow> (bool \<times> string) list HeatingStage" where
  "stage0 opened init0 script =
     HeatingStage_init ''stage'' ''COM3'' 9600 (Some (Finite 1)) (Finite 600) init0
       \<lparr>is_open = opened, written = [], io = script\<rparr>"


section \<open>Commands (src/commands/command.py)\<close>

subsection \<open>Builtins on values\<close>

text \<open>\<open>str\<close> on an int is its decimal numeral.\<close>

fun nat_str :: "nat \<Rightarrow> string" where
  "nat_str n =
     (if n < 10 then [''0123456789'' ! n]
      else nat_str (n div 10) @ [''0123456789'' ! (n mod 10)])"

declare nat_str.simps [simp del]

definition int_str :: "int \<Rightarrow> string" where
  "int_str i = (if i < 0 then ''-'' @ nat_str (nat (- i)) else nat_str (nat i))"

fun py_str :: "(pyfloat \<Rightarrow> string) \<Rightarrow> pyval \<Rightarrow> string" where
  "py_str float_str (PyStr s) = s"
| "py_str float_str (PyFloat x) = float_str x"
| "py_str float_str (PyInt i) = int_str i"
| "py_str float_str (PyBool b) = (if b then ''True'' else ''False'')"

text \<open>\<open>isinstance(v, str)\<close>.\<close>

fun is_str :: "pyval \<Rightarrow> bool" where
  "is_str (PyStr s) = True"
| "is_str v = False"

text \<open>
  \<open>v > 0.0\<close> on a number. On a \<open>str\<close> Python raises TypeError; the name getter
  tests \<open>isinstance\<close> first and never compares a string.
\<close>

fun gt_zero :: "pyval \<Rightarrow> bool" where
  "gt_zero (PyFloat (Finite q)) = (0 < q)"
| "gt_zero (PyFloat PosInf) = True"
| "gt_zero (PyFloat NegInf) = False"
| "gt_zero (PyFloat NaN) = False"
| "gt_zero (PyInt i) = (0 < i)"
| "gt_zero (PyBool b) = b"
| "gt_zero (PyStr s) = False"

text \<open>\<open>not v\<close> on an \<open>Optional[bool]\<close>: \<open>None\<close> and \<open>False\<close> are falsy.\<close>

fun py_not :: "bool option \<Rightarrow> bool" where
  "py_not None = True"
| "py_not (Some b) = (\<not> b)"

subsection \<open>Objects\<close>

text \<open>
  Commands are objects with identity: a composite holds references to its
  sub-commands, the same command may occur in several lists, and a composite may
  contain itself. The heap maps references to objects; every reference is valid.

  An object is an instance of a concrete subclass of \<open>Command\<close> or a
  \<open>CompositeCommand\<close>:
  \<^item> \<open>Concrete cls body\<close>: \<open>cls\<close> is \<open>type(self).__name__\<close> and \<open>body\<close> is the
    subclass's \<open>execute\<close>. The subclasses are not among the sources; \<open>execute\<close> is
    abstract in \<open>Command\<close>. A body acts on the devices (the world \<open>'w\<close>) and leaves
    the two result attributes of its own object.
  \<^item> \<open>Composite l\<close>: \<open>l\<close> is the attribute \<open>_command_list\<close>, \<open>None\<close> while the
    object has no such attribute.
  \<open>params\<close> is the dict \<open>_params\<close> in insertion order.
\<close>

type_synonym addr = nat

datatype 'w kind =
  Concrete string "'w \<Rightarrow> (bool option \<times> string option) \<times> 'w"
| Composite "addr list option"

record 'w command =
  kind :: "'w kind"
  params :: "(string \<times> pyval) list"
  was_successful :: "bool option"
  result_message :: "string option"

record 'w state =
  heap :: "addr \<Rightarrow> 'w command"
  world :: 'w

text \<open>\<open>Command.__init__\<close>, as a subclass calls it, and \<open>CompositeCommand.__init__\<close>.\<close>

definition Command_init ::
  "string \<Rightarrow> ('w \<Rightarrow> (bool option \<times> string option) \<times> 'w) \<Rightarrow> string \<Rightarrow> pyval \<Rightarrow> 'w command" where
  "Command_init cls body receiver_name delay =
     \<lparr>kind = Concrete cls body,
      params = AList.update ''delay'' delay
                 (AList.update ''receiver_name'' (PyStr receiver_name) []),
      was_successful = None, result_message = None\<rparr>"

definition CompositeCommand_init :: "pyval \<Rightarrow> 'w command" where
  "CompositeCommand_init delay =
     \<lparr>kind = Composite None,
      params = AList.update ''delay'' delay [],
      was_successful = None, result_message = None\<rparr>"

subsection \<open>The name getters\<close>

text \<open>
  The getters build the name in \<open>self._name\<close>, which nothing else reads; it is the
  accumulator here. \<open>self._params['delay']\<close> raises KeyError when the key is missing.
\<close>

fun name_items :: "(pyfloat \<Rightarrow> string) \<Rightarrow> string \<Rightarrow> (string \<times> pyval) list \<Rightarrow> string" where
  "name_items float_str acc [] = acc"
| "name_items float_str acc ((key, val) # items) =
     name_items float_str
       (if \<not> key = ''delay'' then acc @ '' '' @ key @ ''='' @ py_str float_str val else acc)
       items"

definition Command_name ::
  "(pyfloat \<Rightarrow> string) \<Rightarrow> string \<Rightarrow> (string \<times> pyval) list \<Rightarrow> error + string" where
  "Command_name float_str cls ps =
     (let nm = name_items float_str cls ps
      in case map_of ps ''delay'' of
           None \<Rightarrow> Inl KeyError
         | Some delay \<Rightarrow>
             if is_str delay then Inr (nm @ '' '' @ ''delay='' @ py_str float_str delay)
             else if gt_zero delay then Inr (nm @ '' '' @ ''delay='' @ py_str float_str delay)
             else Inr nm)"

text \<open>
  A composite's name asks each sub-command for its name, so it recurses through the
  heap. The first argument of \<open>name\<close> bounds the depth of the calls; \<open>None\<close> is a
  recursion that does not come back within it.
\<close>

fun name_loop ::
  "(addr \<Rightarrow> (error + string) option) \<Rightarrow> string \<Rightarrow> addr list \<Rightarrow> (error + string) option" where
  "name_loop sub acc [] = Some (Inr acc)"
| "name_loop sub acc (command # rest) =
     (case sub command of
        None \<Rightarrow> None
      | Some (Inl e) \<Rightarrow> Some (Inl e)
      | Some (Inr n) \<Rightarrow> name_loop sub (acc @ '' '' @ n @ '';'') rest)"

primrec name ::
  "(pyfloat \<Rightarrow> string) \<Rightarrow> nat \<Rightarrow> (addr \<Rightarrow> 'w command) \<Rightarrow> addr \<Rightarrow> (error + string) option" where
  "name float_str 0 h self = None"
| "name float_str (Suc n) h self =
     (case kind (h self) of
        Concrete cls body \<Rightarrow> Some (Command_name float_str cls (params (h self)))
      | Composite None \<Rightarrow> Some (Inl AttributeError)
      | Composite (Some cs) \<Rightarrow> name_loop (name float_str n h) ''CompositeCommand:'' cs)"

subsection \<open>The sub-command list\<close>

text \<open>
  A call returns the exception it raised, if any, and the state it left.
  \<open>list.insert\<close> clamps the index; \<open>del l[i]\<close> raises IndexError out of range; both
  count a negative index from the end. An object without the attribute, or without the
  method, raises AttributeError.
\<close>

definition list_insert :: "int \<Rightarrow> 'a \<Rightarrow> 'a list \<Rightarrow> 'a list" where
  "list_insert i x xs =
     (let n = int (length xs);
          j = (if i < 0 then max 0 (n + i) else min i n)
      in take (nat j) xs @ x # drop (nat j) xs)"

definition set_command_list :: "addr \<Rightarrow> addr list \<Rightarrow> 'w state \<Rightarrow> 'w state" where
  "set_command_list self cs s =
     s\<lparr>heap := (heap s)(self := (heap s self)\<lparr>kind := Composite (Some cs)\<rparr>)\<rparr>"

definition add_command ::
  "addr \<Rightarrow> addr \<Rightarrow> int option \<Rightarrow> 'w state \<Rightarrow> error option \<times> 'w state" where
  "add_command self command index s =
     (case kind (heap s self) of
        Composite (Some cs) \<Rightarrow>
          (case index of
             None \<Rightarrow> (None, set_command_list self (cs @ [command]) s)
           | Some i \<Rightarrow> (None, set_command_list self (list_insert i command cs) s))
      | _ \<Rightarrow> (Some AttributeError, s))"

definition remove_command :: "addr \<Rightarrow> int option \<Rightarrow> 'w state \<Rightarrow> error option \<times> 'w state" where
  "remove_command self index s =
     (case kind (heap s self) of
        Composite (Some cs) \<Rightarrow>
          (let i = (case index of None \<Rightarrow> - 1 | Some i \<Rightarrow> i);
               n = int (length cs);
               j = (if i < 0 then n + i else i)
           in if 0 \<le> j \<and> j < n
              then (None, set_command_list self (take (nat j) cs @ drop (Suc (nat j)) cs) s)
              else (Some IndexError, s))
      | _ \<Rightarrow> (Some AttributeError, s))"

subsection \<open>Execution\<close>

definition copy_result :: "addr \<Rightarrow> addr \<Rightarrow> 'w state \<Rightarrow> 'w state" where
  "copy_result self command s =
     s\<lparr>heap := (heap s)(self := (heap s self)
         \<lparr>was_successful := was_successful (heap s command),
          result_message := result_message (heap s command)\<rparr>)\<rparr>"

text \<open>
  The loop of \<open>CompositeCommand.execute\<close> over the list, \<open>sub\<close> being the \<open>execute\<close>
  of the sub-commands. An exception in a sub-command leaves the loop.
\<close>

fun execute_loop ::
  "(addr \<Rightarrow> 'w state \<Rightarrow> (error option \<times> 'w state) option)
     \<Rightarrow> addr \<Rightarrow> addr list \<Rightarrow> 'w state \<Rightarrow> (error option \<times> 'w state) option" where
  "execute_loop sub self [] s = Some (None, s)"
| "execute_loop sub self (command # rest) s =
     (case sub command s of
        None \<Rightarrow> None
      | Some (Some e, s1) \<Rightarrow> Some (Some e, s1)
      | Some (None, s1) \<Rightarrow>
          if py_not (was_successful (heap s1 command))
          then Some (None, copy_result self command s1)
          else execute_loop sub self rest (copy_result self command s1))"

text \<open>
  \<open>execute\<close> on the object at \<open>self\<close>. The first argument bounds the depth of nested
  \<open>execute\<close> calls: a composite that contains itself recurses without end, and \<open>None\<close>
  is a call that does not return within the bound.
\<close>

primrec execute :: "nat \<Rightarrow> addr \<Rightarrow> 'w state \<Rightarrow> (error option \<times> 'w state) option" where
  "execute 0 self s = None"
| "execute (Suc n) self s =
     (case kind (heap s self) of
        Concrete cls body \<Rightarrow>
          (case body (world s) of
             ((ok, msg), w) \<Rightarrow>
               Some (None, s\<lparr>heap := (heap s)(self := (heap s self)
                                 \<lparr>was_successful := ok, result_message := msg\<rparr>),
                              world := w\<rparr>))
      | Composite None \<Rightarrow> Some (Some AttributeError, s)
      | Composite (Some cs) \<Rightarrow> execute_loop (execute n) self cs s)"

subsection \<open>Calls from outside\<close>

text \<open>
  The public members of a command, called on the object at a reference by a caller that
  catches what they raise: \<open>perform\<close> gives the state after the call, \<open>None\<close> when the
  call does not return.
\<close>

datatype call =
  Add_command addr "int option"
| Remove_command "int option"
| Get_name
| Get_description
| Get_was_successful
| Get_result_message
| Execute

fun perform :: "(pyfloat \<Rightarrow> string) \<Rightarrow> nat \<Rightarrow> addr \<times> call \<Rightarrow> 'w state \<Rightarrow> 'w state option" where
  "perform float_str n (self, Add_command command index) s =
     Some (snd (add_command self command index s))"
| "perform float_str n (self, Remove_command index) s = Some (snd (remove_command self index s))"
| "perform float_str n (self, Get_name) s =
     (case name float_str n (heap s) self of None \<Rightarrow> None | Some r \<Rightarrow> Some s)"
| "perform float_str n (self, Execute) s =
     (case execute n self s of None \<Rightarrow> None | Some (r, s') \<Rightarrow> Some s')"
| "perform float_str n (self, c) s = Some s"

fun perform_all ::
  "(pyfloat \<Rightarrow> string) \<Rightarrow> nat \<Rightarrow> (addr \<times> call) list \<Rightarrow> 'w state \<Rightarrow> 'w state option" where
  "perform_all float_str n [] s = Some s"
| "perform_all float_str n (c # cs) s =
     (case perform float_str n c s of
        None \<Rightarrow> None
      | Some s' \<Rightarrow> perform_all float_str n cs s')"

subsection \<open>Predicates of the statements\<close>

text \<open>
  The text that one turn of the loop in \<open>Command.name\<close> appends for an item of
  \<open>_params\<close>: a space, the key, \<open>=\<close> and \<open>str\<close> of the value.
\<close>

definition fragment :: "(pyfloat \<Rightarrow> string) \<Rightarrow> string \<times> pyval \<Rightarrow> string" where
  "fragment fs kv = '' '' @ fst kv @ ''='' @ py_str fs (snd kv)"


text \<open>
  A heap in which every concrete command's \<open>execute\<close> leaves a boolean and a message,
  as the concrete commands are said to do (they copy the \<open>(bool, message)\<close> pair of one
  device operation), and in which no composite has an empty list.
\<close>

definition reporting :: "(addr \<Rightarrow> 'w command) \<Rightarrow> bool" where
  "reporting h \<longleftrightarrow>
     (\<forall>a. case kind (h a) of
            Concrete cls body \<Rightarrow> (\<forall>w. \<exists>b m. fst (body w) = (Some b, Some m))
          | Composite l \<Rightarrow> l \<noteq> Some [])"


subsection \<open>Example commands\<close>

text \<open>
  A concrete \<open>execute\<close> that reports a fixed result and appends its name to the world,
  which is the list of the commands executed so far. \<open>recipe\<close> is a composite at
  reference 0 with the list \<open>[A, B, C]\<close> at the references 1, 2 and 3: \<open>A\<close> succeeds,
  \<open>B\<close> fails with the message \<open>overheat\<close>, \<open>C\<close> succeeds. \<open>fresh_state\<close> holds
  composites as the constructor leaves them, \<open>idle_state\<close> composites with an empty list.
\<close>

definition reports ::
  "string \<Rightarrow> bool \<Rightarrow> string \<Rightarrow> string list \<Rightarrow> (bool option \<times> string option) \<times> string list" where
  "reports nm ok msg w = ((Some ok, Some msg), w @ [nm])"

definition recipe :: "string list state" where
  "recipe =
     \<lparr>heap = (\<lambda>a. Command_init ''C'' (reports ''C'' True ''done'') ''stage'' (PyFloat (Finite 0)))
        (0 := (CompositeCommand_init (PyFloat (Finite 0)))\<lparr>kind := Composite (Some [1, 2, 3])\<rparr>,
         1 := Command_init ''A'' (reports ''A'' True ''ok'') ''stage'' (PyFloat (Finite 0)),
         2 := Command_init ''B'' (reports ''B'' False ''overheat'') ''stage'' (PyFloat (Finite 0))),
      world = []\<rparr>"

definition fresh_state :: "pyval \<Rightarrow> string list state" where
  "fresh_state delay = \<lparr>heap = (\<lambda>a. CompositeCommand_init delay), world = []\<rparr>"

definition idle_state :: "string list state" where
  "idle_state = \<lparr>heap = (\<lambda>a. (CompositeCommand_init (PyFloat (Finite 0)))\<lparr>kind := Composite (Some [])\<rparr>),
           world = []\<rparr>"

text \<open>
  A composite at reference 0 with the list \<open>[A]\<close>, \<open>A\<close> at reference 1 succeeding
  with the message \<open>ok\<close> (\<open>single_state\<close>); the state after its \<open>execute\<close>
  (\<open>ran_state\<close>); and that state after \<open>remove_command()\<close> has emptied the list
  (\<open>stale_state\<close>).
\<close>

definition single_state :: "string list state" where
  "single_state =
     \<lparr>heap = (\<lambda>a. Command_init ''A'' (reports ''A'' True ''ok'') ''stage'' (PyFloat (Finite 0)))
        (0 := (CompositeCommand_init (PyFloat (Finite 0)))\<lparr>kind := Composite (Some [1])\<rparr>),
      world = []\<rparr>"

definition ran_state :: "string list state" where
  "ran_state =
     \<lparr>heap = (\<lambda>a. Command_init ''A'' (reports ''A'' True ''ok'') ''stage'' (PyFloat (Finite 0)))
        (0 := (CompositeCommand_init (PyFloat (Finite 0)))
                \<lparr>kind := Composite (Some [1]),
                 was_successful := Some True, result_message := Some ''ok''\<rparr>,
         1 := (Command_init ''A'' (reports ''A'' True ''ok'') ''stage'' (PyFloat (Finite 0)))
                \<lparr>was_successful := Some True, result_message := Some ''ok''\<rparr>),
      world = [''A'']\<rparr>"

definition stale_state :: "string list state" where
  "stale_state =
     \<lparr>heap = (\<lambda>a. Command_init ''A'' (reports ''A'' True ''ok'') ''stage'' (PyFloat (Finite 0)))
        (0 := (CompositeCommand_init (PyFloat (Finite 0)))
                \<lparr>kind := Composite (Some []),
                 was_successful := Some True, result_message := Some ''ok''\<rparr>,
         1 := (Command_init ''A'' (reports ''A'' True ''ok'') ''stage'' (PyFloat (Finite 0)))
                \<lparr>was_successful := Some True, result_message := Some ''ok''\<rparr>),
      world = [''A'']\<rparr>"

section \<open>Properties of the heating stage\<close>

lemma set_settemp_is_initialized:
  "is_initialized (snd (set_settemp fs ck t self)) = is_initialized self"
  by (simp add: set_settemp_def Let_def split: prod.splits)

lemma pid_off_is_initialized:
  "is_initialized (snd (pid_off ck self)) = is_initialized self"
  by (simp add: pid_off_def Let_def split: prod.splits)

text \<open>
  C4, as amended. On an open connection and an uninitialized device, \<open>set_settemp\<close>,
  \<open>set_temp\<close> and \<open>pid_on\<close> return \<open>(False, "Heating stage is not initialized.")\<close>
  and leave the device, and so the bytes written to the connection, as they were.
  \<open>pid_off\<close>, \<open>is_pid_on\<close> and \<open>temperature\<close> do not look at the initialization
  flag: their result and their effect on the connection are the same whatever its value.
\<close>

theorem uninitialized_gate:
  assumes "is_open (ser self)" and "\<not> is_initialized self"
  shows "set_settemp fs ck t self = ((False, ''Heating stage is not initialized.''), self)
       \<and> set_temp fs ck t self = ((False, ''Heating stage is not initialized.''), self)
       \<and> pid_on ck self = ((False, ''Heating stage is not initialized.''), self)
       \<and> pid_off ck (self\<lparr>is_initialized := b\<rparr>)
           = (fst (pid_off ck self), (snd (pid_off ck self))\<lparr>is_initialized := b\<rparr>)
       \<and> is_pid_on ck parse (self\<lparr>is_initialized := b\<rparr>)
           = (fst (is_pid_on ck parse self), (snd (is_pid_on ck parse self))\<lparr>is_initialized := b\<rparr>)
       \<and> temperature ck parse fos (self\<lparr>is_initialized := b\<rparr>)
           = (fst (temperature ck parse fos self),
              (snd (temperature ck parse fos self))\<lparr>is_initialized := b\<rparr>)"
proof -
  have a: "set_settemp fs ck t self = ((False, ''Heating stage is not initialized.''), self)"
    using assms by (simp add: set_settemp_def)
  have b: "set_temp fs ck t self = ((False, ''Heating stage is not initialized.''), self)"
    using assms by (simp add: set_temp_def)
  have c: "pid_on ck self = ((False, ''Heating stage is not initialized.''), self)"
    using assms by (simp add: pid_on_def)
  have d: "pid_off ck (self\<lparr>is_initialized := b\<rparr>)
           = (fst (pid_off ck self), (snd (pid_off ck self))\<lparr>is_initialized := b\<rparr>)"
    by (simp add: pid_off_def not_open_msg_def Let_def split: prod.splits)
  have e: "is_pid_on ck parse (self\<lparr>is_initialized := b\<rparr>)
           = (fst (is_pid_on ck parse self), (snd (is_pid_on ck parse self))\<lparr>is_initialized := b\<rparr>)"
    by (simp add: is_pid_on_def not_open_msg_def Let_def split: prod.splits)
  have f: "temperature ck parse fos (self\<lparr>is_initialized := b\<rparr>)
           = (fst (temperature ck parse fos self),
              (snd (temperature ck parse fos self))\<lparr>is_initialized := b\<rparr>)"
    by (simp add: temperature_def not_open_msg_def Let_def split: prod.splits option.splits)
  from a b c d e f show ?thesis by blast
qed

theorem uninitialized_gate_witness:
  "set_temp float_str_sample scripted (Finite 26) (stage0 True False [(True, ''done'')])
     = ((False, ''Heating stage is not initialized.''), stage0 True False [(True, ''done'')])
   \<and> written (ser (snd (set_temp float_str_sample scripted (Finite 26)
                           (stage0 True False [(True, ''done'')])))) = []"
proof -
  have o: "is_open (ser (stage0 True False [(True, ''done'')]))"
    by (simp add: stage0_def HeatingStage_init_def)
  have i: "\<not> is_initialized (stage0 True False [(True, ''done'')])"
    by (simp add: stage0_def HeatingStage_init_def)
  have "set_temp float_str_sample scripted (Finite 26) (stage0 True False [(True, ''done'')])
     = ((False, ''Heating stage is not initialized.''), stage0 True False [(True, ''done'')])"
    using uninitialized_gate [OF o i, of float_str_sample scripted "Finite 26"] by blast
  then show ?thesis by (simp add: stage0_def HeatingStage_init_def)
qed

text \<open>
  C4 as stated fails: on an open connection and an uninitialized device, \<open>is_pid_on\<close>
  writes its command line and reports the PID state.
\<close>

theorem is_pid_on_uninitialized_counterexample:
  "fst (is_pid_on scripted parse_equal_sign_spec (stage0 True False [(True, ''PID=ON'')]))
     = (True, PyBool True)
   \<and> written (ser (snd (is_pid_on scripted parse_equal_sign_spec
                           (stage0 True False [(True, ''PID=ON'')]))))
     = [''>pr pid'' @ [CHR 0x0A]]
   \<and> is_open (ser (stage0 True False [(True, ''PID=ON'')]))
   \<and> \<not> is_initialized (stage0 True False [(True, ''PID=ON'')])"
  by (simp add: is_pid_on_def stage0_def HeatingStage_init_def scripted_def ser_write_def
      parse_equal_sign_spec_def Let_def)

text \<open>
  C5. \<open>initialize\<close> runs \<open>set_settemp(26.0)\<close> on the device with the flag set, then
  \<open>pid_on\<close>. When the first step fails, the result is that step's message with
  \<open>False\<close>, and the device is the one the first step left, with the flag cleared:
  \<open>pid_on\<close> has not run. When the first succeeds and the second fails, the result is
  \<open>pid_on\<close>'s message with \<open>False\<close> and the flag is cleared.
\<close>

theorem initialize_aborts:
  assumes "set_settemp fs ck (Finite 26) (self\<lparr>is_initialized := True\<rparr>) = ((ok1, m1), self1)"
    and "pid_on ck self1 = ((ok2, m2), self2)"
  shows "(\<not> ok1 \<longrightarrow> initialize fs ck self = ((False, m1), self1\<lparr>is_initialized := False\<rparr>))
       \<and> (ok1 \<and> \<not> ok2 \<longrightarrow>
            initialize fs ck self = ((False, m2), self2\<lparr>is_initialized := False\<rparr>))
       \<and> (\<not> (ok1 \<and> ok2) \<longrightarrow> \<not> fst (fst (initialize fs ck self))
             \<and> \<not> is_initialized (snd (initialize fs ck self)))"
  using assms by (simp add: initialize_def Let_def)

theorem initialize_aborts_witness:
  "initialize float_str_sample scripted (stage0 True False [(True, ''done''), (False, ''PID stuck'')])
     = ((False, ''PID stuck''),
        (stage0 True False [])\<lparr>ser := \<lparr>is_open = True,
            written = [''>set Ts 26.0'' @ [CHR 0x0A], ''>pidon'' @ [CHR 0x0A]], io = []\<rparr>\<rparr>)"
proof -
  let ?s = "stage0 True False [(True, ''done''), (False, ''PID stuck'')]"
  let ?s1 = "(stage0 True True [(False, ''PID stuck'')])\<lparr>ser := \<lparr>is_open = True,
            written = [''>set Ts 26.0'' @ [CHR 0x0A]], io = [(False, ''PID stuck'')]\<rparr>\<rparr>"
  let ?s2 = "(stage0 True True [])\<lparr>ser := \<lparr>is_open = True,
            written = [''>set Ts 26.0'' @ [CHR 0x0A], ''>pidon'' @ [CHR 0x0A]], io = []\<rparr>\<rparr>"
  have 1: "set_settemp float_str_sample scripted (Finite 26) (?s\<lparr>is_initialized := True\<rparr>)
           = ((True, ''done''), ?s1)"
    by (simp add: set_settemp_def stage0_def HeatingStage_init_def scripted_def ser_write_def
        float_str_sample_def Let_def)
  have 2: "pid_on scripted ?s1 = ((False, ''PID stuck''), ?s2)"
    by (simp add: pid_on_def stage0_def HeatingStage_init_def scripted_def ser_write_def Let_def)
  from initialize_aborts [OF 1 2] show ?thesis
    by (simp add: stage0_def HeatingStage_init_def)
qed

text \<open>
  C9. \<open>deinitialize\<close> runs \<open>set_settemp(24.0)\<close> on the device with the flag set, then
  \<open>pid_off\<close>. When both steps succeed the call succeeds and the flag afterwards is the
  negation of \<open>reset_init_flag\<close>; when either step fails the call fails with that step's
  message and the flag is cleared.
\<close>

theorem deinitialize_flag:
  assumes "set_settemp fs ck (Finite 24) (self\<lparr>is_initialized := True\<rparr>) = ((ok1, m1), self1)"
    and "pid_off ck self1 = ((ok2, m2), self2)"
  shows "(\<not> ok1 \<longrightarrow>
            deinitialize fs ck flag self = ((False, m1), self1\<lparr>is_initialized := False\<rparr>))
       \<and> (ok1 \<and> \<not> ok2 \<longrightarrow>
            deinitialize fs ck flag self = ((False, m2), self2\<lparr>is_initialized := False\<rparr>))
       \<and> (ok1 \<and> ok2 \<longrightarrow> fst (fst (deinitialize fs ck flag self))
             \<and> is_initialized (snd (deinitialize fs ck flag self)) = (\<not> flag))
       \<and> (\<not> (ok1 \<and> ok2) \<longrightarrow> \<not> fst (fst (deinitialize fs ck flag self))
             \<and> \<not> is_initialized (snd (deinitialize fs ck flag self)))"
proof -
  have "is_initialized self1"
    using assms(1) set_settemp_is_initialized [of fs ck "Finite 24" "self\<lparr>is_initialized := True\<rparr>"]
    by simp
  then have "is_initialized self2"
    using assms(2) pid_off_is_initialized [of ck self1] by simp
  then show ?thesis
    using assms by (simp add: deinitialize_def Let_def)
qed

theorem deinitialize_flag_witness:
  "fst (fst (deinitialize float_str_sample scripted False
               (stage0 True True [(True, ''done''), (True, ''off'')])))
   \<and> is_initialized (snd (deinitialize float_str_sample scripted False
               (stage0 True True [(True, ''done''), (True, ''off'')])))
   \<and> fst (fst (deinitialize float_str_sample scripted True
               (stage0 True True [(True, ''done''), (True, ''off'')])))
   \<and> \<not> is_initialized (snd (deinitialize float_str_sample scripted True
               (stage0 True True [(True, ''done''), (True, ''off'')])))"
proof -
  let ?s = "stage0 True True [(True, ''done''), (True, ''off'')]"
  let ?s1 = "(stage0 True True [(True, ''off'')])\<lparr>ser := \<lparr>is_open = True,
            written = [''>set Ts 24.0'' @ [CHR 0x0A]], io = [(True, ''off'')]\<rparr>\<rparr>"
  let ?s2 = "(stage0 True True [])\<lparr>ser := \<lparr>is_open = True,
            written = [''>set Ts 24.0'' @ [CHR 0x0A], ''>pidoff'' @ [CHR 0x0A]], io = []\<rparr>\<rparr>"
  have 1: "set_settemp float_str_sample scripted (Finite 24) (?s\<lparr>is_initialized := True\<rparr>)
           = ((True, ''done''), ?s1)"
    by (simp add: set_settemp_def stage0_def HeatingStage_init_def scripted_def ser_write_def
        float_str_sample_def Let_def)
  have 2: "pid_off scripted ?s1 = ((True, ''off''), ?s2)"
    by (simp add: pid_off_def stage0_def HeatingStage_init_def scripted_def ser_write_def Let_def)
  from deinitialize_flag [OF 1 2, of False] deinitialize_flag [OF 1 2, of True]
  show ?thesis by simp
qed

text \<open>
  C10. When the connection is open, the handshake succeeds with the payload \<open>comment\<close>
  and \<open>parse_equal_sign\<close> finds a value \<open>v\<close> in it, \<open>is_pid_on\<close> returns \<open>True\<close>
  with the boolean \<open>v == "ON"\<close>: any other value, \<open>"on"\<close> included, gives \<open>False\<close>.
\<close>

theorem is_pid_on_exact:
  assumes "is_open (ser self)"
    and "ck None (ser_write (''>pr pid'' @ [CHR 0x0A]) (ser self)) = ((True, comment), conn')"
    and "parse comment = (True, v)"
  shows "is_pid_on ck parse self = ((True, PyBool (v = ''ON'')), self\<lparr>ser := conn'\<rparr>)"
  using assms by (simp add: is_pid_on_def Let_def)

theorem is_pid_on_exact_witness:
  "fst (is_pid_on scripted parse_equal_sign_spec (stage0 True True [(True, ''PID=on'')]))
     = (True, PyBool False)
   \<and> fst (is_pid_on scripted parse_equal_sign_spec (stage0 True True [(True, ''PID=ON'')]))
     = (True, PyBool True)"
proof -
  have o: "\<And>sc. is_open (ser (stage0 True True sc))"
    by (simp add: stage0_def HeatingStage_init_def)
  have h: "\<And>r. scripted None (ser_write (''>pr pid'' @ [CHR 0x0A]) (ser (stage0 True True [r])))
             = (r, \<lparr>is_open = True, written = [''>pr pid'' @ [CHR 0x0A]], io = []\<rparr>)"
    by (simp add: scripted_def ser_write_def stage0_def HeatingStage_init_def)
  have p1: "parse_equal_sign_spec ''PID=on'' = (True, ''on'')"
    by (simp add: parse_equal_sign_spec_def)
  have p2: "parse_equal_sign_spec ''PID=ON'' = (True, ''ON'')"
    by (simp add: parse_equal_sign_spec_def)
  from is_pid_on_exact [where ck = scripted and parse = parse_equal_sign_spec, OF o h p1]
    is_pid_on_exact [where ck = scripted and parse = parse_equal_sign_spec, OF o h p2]
  show ?thesis by simp
qed

text \<open>
  C8 fails on the code. When the connection is open, the handshake succeeds and
  \<open>parse_equal_sign\<close> finds a value on which \<open>float\<close> raises, \<open>temperature\<close> raises
  ValueError instead of returning a pair.
\<close>

theorem temperature_raises:
  assumes "is_open (ser self)"
    and "ck None (ser_write (''>pr T'' @ [CHR 0x0A]) (ser self)) = ((True, comment), conn')"
    and "parse comment = (True, v)"
    and "fos v = None"
  shows "temperature ck parse fos self = (Inl ValueError, self\<lparr>ser := conn'\<rparr>)"
  using assms by (simp add: temperature_def Let_def)

theorem temperature_raises_witness:
  "fst (temperature scripted parse_equal_sign_spec float_of_str_sample
          (stage0 True True [(True, ''T=abc'')])) = Inl ValueError"
proof -
  have o: "is_open (ser (stage0 True True [(True, ''T=abc'')]))"
    by (simp add: stage0_def HeatingStage_init_def)
  have h: "scripted None (ser_write (''>pr T'' @ [CHR 0x0A]) (ser (stage0 True True [(True, ''T=abc'')])))
             = ((True, ''T=abc''), \<lparr>is_open = True, written = [''>pr T'' @ [CHR 0x0A]], io = []\<rparr>)"
    by (simp add: scripted_def ser_write_def stage0_def HeatingStage_init_def)
  have p: "parse_equal_sign_spec ''T=abc'' = (True, ''abc'')"
    by (simp add: parse_equal_sign_spec_def)
  have f: "float_of_str_sample ''abc'' = None"
    by (simp add: float_of_str_sample_def)
  from temperature_raises [where ck = scripted and parse = parse_equal_sign_spec
      and fos = float_of_str_sample, OF o h p f]
  show ?thesis by simp
qed

section \<open>Properties of the commands\<close>

subsection \<open>The loop of a composite\<close>

lemma copy_result_self [simp]:
  "was_successful (heap (copy_result self c s) self) = was_successful (heap s c)"
  "result_message (heap (copy_result self c s) self) = result_message (heap s c)"
  by (simp_all add: copy_result_def)

lemma copy_result_command [simp]:
  "was_successful (heap (copy_result self c s) c) = was_successful (heap s c)"
  "result_message (heap (copy_result self c s) c) = result_message (heap s c)"
  by (simp_all add: copy_result_def)

lemma copy_result_kind [simp]:
  "kind (heap (copy_result self c s) a) = kind (heap s a)"
  by (simp add: copy_result_def)

lemma execute_loop_last:
  assumes "execute_loop sub self cs s = Some (None, s')" and "cs \<noteq> []"
  shows "\<exists>k<length cs.
           execute_loop sub self (take (Suc k) cs) s = Some (None, s')
         \<and> was_successful (heap s' self) = was_successful (heap s' (cs ! k))
         \<and> result_message (heap s' self) = result_message (heap s' (cs ! k))
         \<and> (\<forall>j<k. \<exists>t. execute_loop sub self (take (Suc j) cs) s = Some (None, t)
                      \<and> \<not> py_not (was_successful (heap t (cs ! j))))
         \<and> (Suc k < length cs \<longrightarrow> py_not (was_successful (heap s' (cs ! k)))
               \<and> (\<forall>ys. execute_loop sub self (take (Suc k) cs @ ys) s = Some (None, s')))"
  using assms
proof (induction cs arbitrary: s)
  case Nil
  then show ?case by simp
next
  case (Cons c rest)
  from Cons.prems(1) obtain s1 where s1: "sub c s = Some (None, s1)"
    by (auto split: option.splits prod.splits if_splits)
  let ?s2 = "copy_result self c s1"
  show ?case
  proof (cases "py_not (was_successful (heap s1 c))")
    case True
    with s1 Cons.prems(1) have "s' = ?s2" by simp
    with True s1 show ?thesis
      by (intro exI [of _ 0]) simp
  next
    case False
    with s1 Cons.prems(1) have run: "execute_loop sub self rest ?s2 = Some (None, s')" by simp
    show ?thesis
    proof (cases "rest = []")
      case True
      with run have "s' = ?s2" by simp
      with False s1 True show ?thesis
        by (intro exI [of _ 0]) simp
    next
      case nonempty: False
      from Cons.IH [OF run nonempty] obtain k where k: "k < length rest"
        and a: "execute_loop sub self (take (Suc k) rest) ?s2 = Some (None, s')"
        and b: "was_successful (heap s' self) = was_successful (heap s' (rest ! k))"
               "result_message (heap s' self) = result_message (heap s' (rest ! k))"
        and c: "\<forall>j<k. \<exists>t. execute_loop sub self (take (Suc j) rest) ?s2 = Some (None, t)
                      \<and> \<not> py_not (was_successful (heap t (rest ! j)))"
        and d: "Suc k < length rest \<longrightarrow> py_not (was_successful (heap s' (rest ! k)))
               \<and> (\<forall>ys. execute_loop sub self (take (Suc k) rest @ ys) ?s2 = Some (None, s'))"
        by blast
      have e: "\<forall>j<Suc k. \<exists>t. execute_loop sub self (take (Suc j) (c # rest)) s = Some (None, t)
                      \<and> \<not> py_not (was_successful (heap t ((c # rest) ! j)))"
      proof (intro allI impI)
        fix j assume "j < Suc k"
        show "\<exists>t. execute_loop sub self (take (Suc j) (c # rest)) s = Some (None, t)
                      \<and> \<not> py_not (was_successful (heap t ((c # rest) ! j)))"
        proof (cases j)
          case 0
          with s1 False show ?thesis by simp
        next
          case (Suc i)
          with \<open>j < Suc k\<close> c obtain t where
            "execute_loop sub self (take (Suc i) rest) ?s2 = Some (None, t)"
            "\<not> py_not (was_successful (heap t (rest ! i)))" by auto
          with Suc s1 False show ?thesis by simp
        qed
      qed
      from k a b d e s1 False show ?thesis
        by (intro exI [of _ "Suc k"]) simp
    qed
  qed
qed

subsection \<open>What execution keeps\<close>

lemma execute_loop_kind:
  assumes sub: "\<And>c t r t'. sub c t = Some (r, t') \<Longrightarrow> \<forall>a. kind (heap t' a) = kind (heap t a)"
  shows "execute_loop sub self cs s = Some (r, s') \<Longrightarrow> kind (heap s' a) = kind (heap s a)"
proof (induction cs arbitrary: s)
  case Nil
  then show ?case by simp
next
  case (Cons c rest)
  show ?case
  proof (cases "sub c s")
    case None
    with Cons.prems show ?thesis by simp
  next
    case (Some p)
    obtain e s1 where p: "p = (e, s1)" by (cases p)
    from sub Some p have k1: "kind (heap s1 a) = kind (heap s a)" by blast
    show ?thesis
    proof (cases e)
      case (Some x)
      with \<open>sub c s = Some p\<close> p Cons.prems k1 show ?thesis by simp
    next
      case None
      show ?thesis
      proof (cases "py_not (was_successful (heap s1 c))")
        case True
        with None \<open>sub c s = Some p\<close> p Cons.prems k1 show ?thesis by auto
      next
        case False
        with None \<open>sub c s = Some p\<close> p Cons.prems
        have "execute_loop sub self rest (copy_result self c s1) = Some (r, s')" by simp
        from Cons.IH [OF this] k1 show ?thesis by simp
      qed
    qed
  qed
qed

lemma execute_kind:
  "execute n self (s :: 'w state) = Some (r, s') \<Longrightarrow> \<forall>a. kind (heap s' a) = kind (heap s a)"
proof (induction n arbitrary: self s r s')
  case 0
  then show ?case by simp
next
  case (Suc n)
  show ?case
  proof (cases "kind (heap s self)")
    case (Concrete cls body)
    with Suc.prems show ?thesis by (auto split: prod.splits)
  next
    case (Composite l)
    show ?thesis
    proof (cases l)
      case None
      with Composite Suc.prems show ?thesis by simp
    next
      case (Some cs)
      with Composite Suc.prems
      have run: "execute_loop (execute n) self cs s = Some (r, s')" by simp
      show ?thesis
      proof
        fix a
        show "kind (heap s' a) = kind (heap s a)"
        proof (rule execute_loop_kind [where sub = "execute n"])
          show "execute_loop (execute n) self cs s = Some (r, s')" by (rule run)
        next
          fix c and t :: "'w state" and r' t'
          assume "execute n c t = Some (r', t')"
          then show "\<forall>a. kind (heap t' a) = kind (heap t a)" by (rule Suc.IH)
        qed
      qed
    qed
  qed
qed

lemma reporting_kinds:
  "\<forall>a. kind (h' a) = kind (h a) \<Longrightarrow> reporting h' = reporting h"
  by (simp add: reporting_def)

lemma execute_loop_reports:
  assumes sub: "\<And>c (t :: 'w state) t'. reporting (heap t) \<Longrightarrow> sub c t = Some (None, t')
                  \<Longrightarrow> was_successful (heap t' c) \<noteq> None \<and> result_message (heap t' c) \<noteq> None"
    and subk: "\<And>c t r t'. sub c t = Some (r, t') \<Longrightarrow> \<forall>a. kind (heap t' a) = kind (heap t a)"
  shows "reporting (heap s) \<Longrightarrow> cs \<noteq> [] \<Longrightarrow> execute_loop sub self cs s = Some (None, s')
          \<Longrightarrow> was_successful (heap s' self) \<noteq> None \<and> result_message (heap s' self) \<noteq> None"
proof (induction cs arbitrary: s)
  case Nil
  then show ?case by simp
next
  case (Cons c rest)
  from Cons.prems(3) obtain s1 where s1: "sub c s = Some (None, s1)"
    by (auto split: option.splits prod.splits if_splits)
  let ?s2 = "copy_result self c s1"
  from sub [OF Cons.prems(1) s1]
  have set2: "was_successful (heap ?s2 self) \<noteq> None \<and> result_message (heap ?s2 self) \<noteq> None"
    by simp
  from subk [OF s1] have "\<forall>a. kind (heap ?s2 a) = kind (heap s a)" by simp
  from reporting_kinds [OF this] Cons.prems(1) have rep2: "reporting (heap ?s2)" by simp
  show ?case
  proof (cases "py_not (was_successful (heap s1 c)) \<or> rest = []")
    case True
    with s1 Cons.prems(3) have "s' = ?s2" by (auto split: if_splits)
    with set2 show ?thesis by simp
  next
    case False
    with s1 Cons.prems(3) have "execute_loop sub self rest ?s2 = Some (None, s')" by simp
    from Cons.IH [OF rep2 _ this] False show ?thesis by simp
  qed
qed

lemma execute_reports:
  "reporting (heap s) \<Longrightarrow> execute n self (s :: 'w state) = Some (None, s')
     \<Longrightarrow> was_successful (heap s' self) \<noteq> None \<and> result_message (heap s' self) \<noteq> None"
proof (induction n arbitrary: self s s')
  case 0
  then show ?case by simp
next
  case (Suc n)
  show ?case
  proof (cases "kind (heap s self)")
    case (Concrete cls body)
    with Suc.prems(1) have "\<exists>b m. fst (body (world s)) = (Some b, Some m)"
      by (auto simp: reporting_def dest: spec [of _ self])
    with Concrete Suc.prems(2) show ?thesis by (auto split: prod.splits)
  next
    case (Composite l)
    with Suc.prems(1) have ne: "l \<noteq> Some []"
      by (auto simp: reporting_def dest: spec [of _ self])
    show ?thesis
    proof (cases l)
      case None
      with Composite Suc.prems(2) show ?thesis by simp
    next
      case (Some cs)
      with Composite Suc.prems(2)
      have run: "execute_loop (execute n) self cs s = Some (None, s')" by simp
      from Some ne have "cs \<noteq> []" by simp
      show ?thesis
      proof (rule execute_loop_reports [where sub = "execute n"])
        show "reporting (heap s)" by (rule Suc.prems(1))
        show "cs \<noteq> []" by (rule \<open>cs \<noteq> []\<close>)
        show "execute_loop (execute n) self cs s = Some (None, s')" by (rule run)
      next
        fix c and t :: "'w state" and t'
        assume "reporting (heap t)" "execute n c t = Some (None, t')"
        then show "was_successful (heap t' c) \<noteq> None \<and> result_message (heap t' c) \<noteq> None"
          by (rule Suc.IH)
      next
        fix c and t :: "'w state" and r t'
        assume "execute n c t = Some (r, t')"
        then show "\<forall>a. kind (heap t' a) = kind (heap t a)" by (rule execute_kind)
      qed
    qed
  qed
qed

lemma perform_keeps_fresh:
  assumes "kind (heap s a) = Composite None" and "perform fs n c (s :: 'w state) = Some s'"
  shows "kind (heap s' a) = Composite None"
proof (cases c)
  case (Pair self cl)
  show ?thesis
  proof (cases cl)
    case (Add_command x i)
    with Pair assms show ?thesis
      by (cases "self = a")
        (auto simp: add_command_def set_command_list_def split: kind.splits option.splits)
  next
    case (Remove_command i)
    with Pair assms show ?thesis
      by (cases "self = a")
        (auto simp: remove_command_def set_command_list_def Let_def
              split: kind.splits option.splits if_splits)
  next
    case Execute
    with Pair assms show ?thesis
      by (auto split: option.splits dest: execute_kind)
  qed (use Pair assms in \<open>auto split: option.splits\<close>)
qed

lemma perform_all_keeps_fresh:
  "kind (heap s a) = Composite None \<Longrightarrow> perform_all fs n cs (s :: 'w state) = Some s'
     \<Longrightarrow> kind (heap s' a) = Composite None"
proof (induction cs arbitrary: s)
  case Nil
  then show ?case by simp
next
  case (Cons c cs)
  from Cons.prems(2) obtain s1 where 1: "perform fs n c s = Some s1"
    and 2: "perform_all fs n cs s1 = Some s'"
    by (auto split: option.splits)
  from perform_keeps_fresh [OF Cons.prems(1) 1] have "kind (heap s1 a) = Composite None" .
  from Cons.IH [OF this 2] show ?case .
qed

lemma perform_fresh_self:
  "kind (heap s self) = Composite None \<Longrightarrow> perform fs (Suc n) (self, cl) s = Some s"
  by (cases cl) (simp_all add: add_command_def remove_command_def)

lemma perform_all_fresh_self:
  "kind (heap s self) = Composite None
     \<Longrightarrow> perform_all fs (Suc n) (map (Pair self) cls) s = Some s"
  by (induction cls) (simp_all add: perform_fresh_self)

subsection \<open>The parts of a name\<close>

lemma name_items_concat:
  "name_items fs acc ps
     = acc @ concat (map (fragment fs) (filter (\<lambda>kv. fst kv \<noteq> ''delay'') ps))"
  by (induction ps arbitrary: acc) (auto simp: fragment_def)

lemma sublist_spaced:
  assumes "CHR '' '' \<notin> set p" and "p \<noteq> []"
  shows "sublist p (xs @ CHR '' '' # ys) \<longleftrightarrow> sublist p xs \<or> sublist p ys"
proof
  assume "sublist p (xs @ CHR '' '' # ys)"
  then consider "sublist p xs" | "sublist p (CHR '' '' # ys)"
    | p1 p2 where "p = p1 @ p2" "suffix p1 xs" "prefix p2 (CHR '' '' # ys)"
    by (auto simp: sublist_append)
  then show "sublist p xs \<or> sublist p ys"
  proof cases
    case 1
    then show ?thesis by simp
  next
    case 2
    with assms show ?thesis
      by (cases p) (auto simp: sublist_Cons_right)
  next
    case 3
    from 3(3) assms(1) 3(1) have "p2 = []" by (cases p2) auto
    with 3 show ?thesis by (auto simp: suffix_imp_sublist)
  qed
next
  assume "sublist p xs \<or> sublist p ys"
  then show "sublist p (xs @ CHR '' '' # ys)"
    by (auto simp: sublist_append sublist_Cons_right)
qed

lemma sublist_fragments:
  assumes "CHR '' '' \<notin> set p" and "p \<noteq> []"
  shows "sublist p (acc @ concat (map (fragment fs) kvs))
          \<longleftrightarrow> sublist p acc \<or> (\<exists>kv\<in>set kvs. sublist p (fst kv @ ''='' @ py_str fs (snd kv)))"
proof (induction kvs arbitrary: acc rule: rev_induct)
  case Nil
  then show ?case by simp
next
  case (snoc kv kvs)
  have "acc @ concat (map (fragment fs) (kvs @ [kv]))
        = (acc @ concat (map (fragment fs) kvs)) @ CHR '' '' # (fst kv @ ''='' @ py_str fs (snd kv))"
    by (simp add: fragment_def)
  then have "sublist p (acc @ concat (map (fragment fs) (kvs @ [kv])))
        \<longleftrightarrow> sublist p (acc @ concat (map (fragment fs) kvs))
            \<or> sublist p (fst kv @ ''='' @ py_str fs (snd kv))"
    by (simp only: sublist_spaced [OF assms])
  also have "\<dots> \<longleftrightarrow> sublist p acc
      \<or> (\<exists>kv\<in>set (kvs @ [kv]). sublist p (fst kv @ ''='' @ py_str fs (snd kv)))"
    by (auto simp: snoc.IH)
  finally show ?case .
qed

subsection \<open>The examples\<close>

lemma recipe_kinds:
  "kind (heap recipe 0) = Composite (Some [1, 2, 3])"
  "kind (heap recipe (Suc 0)) = Concrete ''A'' (reports ''A'' True ''ok'')"
  "kind (heap recipe 2) = Concrete ''B'' (reports ''B'' False ''overheat'')"
  "kind (heap recipe 3) = Concrete ''C'' (reports ''C'' True ''done'')"
  by (simp_all add: recipe_def Command_init_def CompositeCommand_init_def)

lemma recipe_run:
  "\<exists>s'. execute (Suc (Suc 0)) 0 recipe = Some (None, s')
     \<and> world s' = [''A'', ''B'']
     \<and> was_successful (heap s' 0) = Some False
     \<and> result_message (heap s' 0) = Some ''overheat''
     \<and> was_successful (heap s' 3) = None"
  by (simp add: recipe_def Command_init_def CompositeCommand_init_def reports_def copy_result_def)

lemma recipe_reporting: "reporting (heap recipe)"
  by (auto simp: reporting_def recipe_def Command_init_def CompositeCommand_init_def reports_def)

lemma no_delay_text:
  "\<not> sublist ''delay='' ''SetTemp''"
  "\<not> sublist ''delay='' ''receiver_name=stage''"
  by code_simp+

text \<open>
  What \<open>Command.name\<close> computes when \<open>delay\<close> is among the parameters: the class
  name, then the text of every parameter but \<open>delay\<close> in the order of the dict, then
  the delay's text when the delay is a string or passes the test \<open>> 0.0\<close>. When the
  delay is not shown and neither the class name nor the \<open>key=value\<close> text of another
  parameter contains \<open>delay=\<close>, the name does not contain it. The delays \<open>2.5\<close> and
  \<open>0\<close> are the examples.
\<close>

lemma Command_name_computes:
  assumes "map_of ps ''delay'' = Some d"
  shows "Command_name fs cls ps
           = Inr (cls @ concat (map (fragment fs) (filter (\<lambda>kv. fst kv \<noteq> ''delay'') ps))
                   @ (if is_str d \<or> gt_zero d then '' delay='' @ py_str fs d else []))
       \<and> (\<not> is_str d \<and> \<not> gt_zero d \<and> \<not> sublist ''delay='' cls
            \<and> (\<forall>kv\<in>set ps. fst kv \<noteq> ''delay'' \<longrightarrow>
                  \<not> sublist ''delay='' (fst kv @ ''='' @ py_str fs (snd kv)))
           \<longrightarrow> (\<forall>nm. Command_name fs cls ps = Inr nm \<longrightarrow> \<not> sublist ''delay='' nm))"
proof -
  have 1: "Command_name fs cls ps
           = Inr (cls @ concat (map (fragment fs) (filter (\<lambda>kv. fst kv \<noteq> ''delay'') ps))
                   @ (if is_str d \<or> gt_zero d then '' delay='' @ py_str fs d else []))"
    using assms by (simp add: Command_name_def name_items_concat Let_def)
  have sp: "CHR '' '' \<notin> set ''delay=''" "''delay='' \<noteq> []" by simp_all
  have 2: "\<not> sublist ''delay='' nm"
    if "\<not> is_str d" "\<not> gt_zero d" "\<not> sublist ''delay='' cls"
      "\<forall>kv\<in>set ps. fst kv \<noteq> ''delay'' \<longrightarrow>
                  \<not> sublist ''delay='' (fst kv @ ''='' @ py_str fs (snd kv))"
      "Command_name fs cls ps = Inr nm" for nm
  proof -
    from 1 that(1,2,5)
    have "nm = cls @ concat (map (fragment fs) (filter (\<lambda>kv. fst kv \<noteq> ''delay'') ps))" by simp
    with that(3,4) show ?thesis
      using sublist_fragments [OF sp, of cls fs "filter (\<lambda>kv. fst kv \<noteq> ''delay'') ps"] by auto
  qed
  from 1 2 show ?thesis by blast
qed


lemma Command_name_examples:
  "Command_name float_str_sample ''SetTemp''
     (params (Command_init ''SetTemp'' (reports ''SetTemp'' True ''ok'') ''stage'' (PyFloat (Finite (5 / 2)))))
   = Inr ''SetTemp receiver_name=stage delay=2.5''
   \<and> Command_name float_str_sample ''SetTemp''
     (params (Command_init ''SetTemp'' (reports ''SetTemp'' True ''ok'') ''stage'' (PyFloat (Finite 0))))
   = Inr ''SetTemp receiver_name=stage''
   \<and> \<not> sublist ''delay='' ''SetTemp receiver_name=stage''"
proof -
  let ?p = "\<lambda>d. params (Command_init ''SetTemp'' (reports ''SetTemp'' True ''ok'') ''stage'' d)"
  have p: "\<And>d. ?p d = [(''receiver_name'', PyStr ''stage''), (''delay'', d)]"
    by (simp add: Command_init_def)
  have m: "\<And>d. map_of (?p d) ''delay'' = Some d" by (simp add: p)
  have f: "\<And>d. concat (map (fragment float_str_sample) (filter (\<lambda>kv. fst kv \<noteq> ''delay'') (?p d)))
            = '' receiver_name=stage''"
    by (simp add: p fragment_def)
  have 1: "Command_name float_str_sample ''SetTemp'' (?p (PyFloat (Finite (5 / 2))))
            = Inr ''SetTemp receiver_name=stage delay=2.5''"
    using Command_name_computes [OF m, of float_str_sample "''SetTemp''" "PyFloat (Finite (5 / 2))"]
    by (simp only: f) (simp add: float_str_sample_def)
  note sh = Command_name_computes [OF m, of float_str_sample "''SetTemp''" "PyFloat (Finite 0)"]
  have 2: "Command_name float_str_sample ''SetTemp'' (?p (PyFloat (Finite 0)))
            = Inr ''SetTemp receiver_name=stage''"
    using sh by (simp only: f) simp
  have h: "\<forall>kv\<in>set (?p (PyFloat (Finite 0))). fst kv \<noteq> ''delay'' \<longrightarrow>
             \<not> sublist ''delay='' (fst kv @ ''='' @ py_str float_str_sample (snd kv))"
    using no_delay_text(2) by (simp add: p)
  have n: "\<not> is_str (PyFloat (Finite 0))" "\<not> gt_zero (PyFloat (Finite 0))" by simp_all
  from sh n no_delay_text(1) h 2 have "\<not> sublist ''delay='' ''SetTemp receiver_name=stage''"
    by blast
  with 1 2 show ?thesis by blast
qed

subsection \<open>The claims\<close>

text \<open>
  C1. Let the composite at \<open>self\<close> have the non-empty list \<open>cs\<close> and let its
  \<open>execute\<close> return, in the state \<open>s'\<close>. Then there is a position \<open>k\<close> of the list,
  that of the last sub-command on which \<open>execute\<close> was called, such that
  \<^item> \<open>s'\<close> is the state the loop reaches on the first \<open>k + 1\<close> sub-commands alone;
  \<^item> the composite's \<open>was_successful\<close> and \<open>result_message\<close> are those of sub-command
    \<open>k\<close>;
  \<^item> every sub-command before \<open>k\<close> reported success when the loop looked at it;
  \<^item> when \<open>k\<close> is not the last position, sub-command \<open>k\<close> reported failure, and the
    loop ends in \<open>s'\<close> whatever follows position \<open>k\<close> in the list: the sub-commands
    after \<open>k\<close> are not executed.
  So the loop stops at the first failure and otherwise runs to the last sub-command.
\<close>

theorem composite_mirrors_last:
  assumes "kind (heap s self) = Composite (Some cs)" and "cs \<noteq> []"
    and "execute (Suc n) self s = Some (None, s')"
  shows "\<exists>k<length cs.
           execute_loop (execute n) self (take (Suc k) cs) s = Some (None, s')
         \<and> was_successful (heap s' self) = was_successful (heap s' (cs ! k))
         \<and> result_message (heap s' self) = result_message (heap s' (cs ! k))
         \<and> (\<forall>j<k. \<exists>t. execute_loop (execute n) self (take (Suc j) cs) s = Some (None, t)
                      \<and> \<not> py_not (was_successful (heap t (cs ! j))))
         \<and> (Suc k < length cs \<longrightarrow> py_not (was_successful (heap s' (cs ! k)))
               \<and> (\<forall>ys. execute_loop (execute n) self (take (Suc k) cs @ ys) s = Some (None, s')))"
proof -
  from assms(1,3) have "execute_loop (execute n) self cs s = Some (None, s')" by simp
  from execute_loop_last [OF this assms(2)] show ?thesis .
qed

theorem composite_mirrors_last_witness:
  "\<exists>s'. execute (Suc (Suc 0)) 0 recipe = Some (None, s')
     \<and> world s' = [''A'', ''B'']
     \<and> was_successful (heap s' 0) = Some False
     \<and> result_message (heap s' 0) = Some ''overheat''
     \<and> (\<exists>k<length [1, 2, 3 :: nat].
           execute_loop (execute (Suc 0)) 0 (take (Suc k) [1, 2, 3]) recipe = Some (None, s')
         \<and> was_successful (heap s' 0) = was_successful (heap s' ([1, 2, 3] ! k))
         \<and> result_message (heap s' 0) = result_message (heap s' ([1, 2, 3] ! k))
         \<and> (\<forall>j<k. \<exists>t. execute_loop (execute (Suc 0)) 0 (take (Suc j) [1, 2, 3]) recipe = Some (None, t)
                      \<and> \<not> py_not (was_successful (heap t ([1, 2, 3] ! j))))
         \<and> (Suc k < length [1, 2, 3 :: nat] \<longrightarrow> py_not (was_successful (heap s' ([1, 2, 3] ! k)))
               \<and> (\<forall>ys. execute_loop (execute (Suc 0)) 0 (take (Suc k) [1, 2, 3] @ ys) recipe = Some (None, s'))))"
proof -
  from recipe_run obtain s' where run: "execute (Suc (Suc 0)) 0 recipe = Some (None, s')"
    and res: "world s' = [''A'', ''B'']" "was_successful (heap s' 0) = Some False"
      "result_message (heap s' 0) = Some ''overheat''"
    by blast
  have ne: "[1, 2, 3 :: nat] \<noteq> []" by simp
  from composite_mirrors_last [OF recipe_kinds(1) ne run] run res show ?thesis by blast
qed

text \<open>
  C2. On a composite as the constructor leaves it, whatever the delay, \<open>add_command\<close>,
  \<open>remove_command\<close>, the name getter and \<open>execute\<close> raise AttributeError and change
  nothing. Any sequence of public calls on it leaves the state as it is, and after any
  sequence of public calls on any objects the composite still has no list.
\<close>

theorem fresh_composite_raises:
  assumes "heap s self = CompositeCommand_init delay"
  shows "add_command self c idx s = (Some AttributeError, s)
       \<and> remove_command self idx s = (Some AttributeError, s)
       \<and> name fs (Suc n) (heap s) self = Some (Inl AttributeError)
       \<and> execute (Suc n) self s = Some (Some AttributeError, s)
       \<and> perform_all fs (Suc n) (map (Pair self) cls) s = Some s
       \<and> (perform_all fs m calls s = Some s' \<longrightarrow> kind (heap s' self) = Composite None)"
proof -
  from assms have k: "kind (heap s self) = Composite None"
    by (simp add: CompositeCommand_init_def)
  then show ?thesis
    using perform_all_fresh_self [OF k] perform_all_keeps_fresh [OF k]
    by (auto simp: add_command_def remove_command_def)
qed

theorem fresh_composite_raises_witness:
  "add_command 0 1 None (fresh_state (PyFloat (Finite 0))) = (Some AttributeError, fresh_state (PyFloat (Finite 0)))
   \<and> remove_command 0 None (fresh_state (PyFloat (Finite 0))) = (Some AttributeError, fresh_state (PyFloat (Finite 0)))
   \<and> name float_str_sample (Suc 0) (heap (fresh_state (PyFloat (Finite 0)))) 0 = Some (Inl AttributeError)
   \<and> execute (Suc 0) 0 (fresh_state (PyFloat (Finite 0))) = Some (Some AttributeError, fresh_state (PyFloat (Finite 0)))
   \<and> perform_all float_str_sample (Suc 0) (map (Pair 0) [Add_command 1 None, Execute, Get_name])
        (fresh_state (PyFloat (Finite 0))) = Some (fresh_state (PyFloat (Finite 0)))"
proof -
  have "heap (fresh_state (PyFloat (Finite 0))) 0 = CompositeCommand_init (PyFloat (Finite 0))"
    by (simp add: fresh_state_def)
  from fresh_composite_raises [OF this, where c = 1 and idx = None and fs = float_str_sample
      and n = 0 and cls = "[Add_command 1 None, Execute, Get_name]"]
  show ?thesis by simp
qed

text \<open>
  C3, as amended. On a composite with an empty list \<open>execute\<close> returns (at any depth
  bound of at least one) and changes nothing: \<open>was_successful\<close> and
  \<open>result_message\<close> are what they were before the call, \<open>None\<close> when no earlier
  \<open>execute\<close> has set them.
\<close>

theorem empty_composite:
  assumes "kind (heap s self) = Composite (Some [])"
  shows "\<exists>s'. execute (Suc n) self s = Some (None, s')
            \<and> was_successful (heap s' self) = was_successful (heap s self)
            \<and> result_message (heap s' self) = result_message (heap s self)
            \<and> s' = s"
  using assms by simp

theorem empty_composite_witness:
  "\<exists>s'. execute (Suc 0) 0 idle_state = Some (None, s')
            \<and> was_successful (heap s' 0) = None \<and> result_message (heap s' 0) = None
            \<and> s' = idle_state"
proof -
  have k: "kind (heap idle_state 0) = Composite (Some [])"
    by (simp add: idle_state_def CompositeCommand_init_def)
  have v: "was_successful (heap idle_state 0) = None" "result_message (heap idle_state 0) = None"
    by (simp_all add: idle_state_def CompositeCommand_init_def)
  from empty_composite [OF k, of 0] v show ?thesis by simp
qed

text \<open>
  C3 as stated fails. A composite that has executed its one sub-command and then lost
  it through \<open>remove_command()\<close> has an empty list; \<open>execute\<close> on it returns and
  leaves \<open>was_successful = True\<close> and the message \<open>ok\<close>, not \<open>None\<close>.
\<close>

theorem stale_composite_counterexample:
  "execute (Suc (Suc 0)) 0 single_state = Some (None, ran_state)
   \<and> remove_command 0 None ran_state = (None, stale_state)
   \<and> kind (heap stale_state 0) = Composite (Some [])
   \<and> execute (Suc 0) 0 stale_state = Some (None, stale_state)
   \<and> was_successful (heap stale_state 0) = Some True
   \<and> result_message (heap stale_state 0) = Some ''ok''"
proof -
  have 1: "execute (Suc (Suc 0)) 0 single_state = Some (None, ran_state)"
    by (simp add: single_state_def ran_state_def Command_init_def CompositeCommand_init_def
        reports_def copy_result_def fun_eq_iff)
  have 2: "remove_command 0 None ran_state = (None, stale_state)"
    by (simp add: ran_state_def stale_state_def remove_command_def set_command_list_def
        Command_init_def CompositeCommand_init_def fun_eq_iff)
  have 3: "kind (heap stale_state 0) = Composite (Some [])"
    "was_successful (heap stale_state 0) = Some True"
    "result_message (heap stale_state 0) = Some ''ok''"
    by (simp_all add: stale_state_def)
  from 3(1) have 4: "execute (Suc 0) 0 stale_state = Some (None, stale_state)" by simp
  from 1 2 3 4 show ?thesis by blast
qed

text \<open>
  C6, as amended. \<open>was_successful\<close> and \<open>result_message\<close> are \<open>None\<close> after
  construction, of a command and of a composite. When every concrete command's
  \<open>execute\<close> leaves a boolean and a message and no composite has an empty list, then
  after an \<open>execute\<close> that returns both attributes are set (a boolean, a message). On a
  composite with an empty list \<open>execute\<close> returns and changes nothing.
\<close>

theorem results_after_execute:
  "was_successful (Command_init cls body rn d) = None
   \<and> result_message (Command_init cls body rn d) = None
   \<and> was_successful (CompositeCommand_init d) = None
   \<and> result_message (CompositeCommand_init d) = None
   \<and> (reporting (heap s) \<and> execute n self s = Some (None, s') \<longrightarrow>
        (\<exists>b m. was_successful (heap s' self) = Some b \<and> result_message (heap s' self) = Some m))
   \<and> (kind (heap s self) = Composite (Some []) \<longrightarrow> execute (Suc n) self s = Some (None, s))"
  using execute_reports [of s n self s']
  by (auto simp: Command_init_def CompositeCommand_init_def)

theorem results_after_execute_witness:
  "\<exists>s'. execute (Suc (Suc 0)) 0 recipe = Some (None, s')
     \<and> (\<exists>b m. was_successful (heap s' 0) = Some b \<and> result_message (heap s' 0) = Some m)"
proof -
  from recipe_run obtain s' where run: "execute (Suc (Suc 0)) 0 recipe = Some (None, s')"
    by blast
  from results_after_execute [of _ _ _ _ recipe "Suc (Suc 0)" 0 s'] recipe_reporting run
  show ?thesis by blast
qed

text \<open>
  C6 as stated fails. On a composite as the constructor leaves it \<open>execute\<close> raises
  AttributeError, and on a composite with an empty list it returns; in both cases
  \<open>was_successful\<close> is \<open>None\<close> after the call.
\<close>

theorem results_counterexample:
  "execute (Suc 0) 0 (fresh_state (PyFloat (Finite 0))) = Some (Some AttributeError, fresh_state (PyFloat (Finite 0)))
   \<and> was_successful (heap (fresh_state (PyFloat (Finite 0))) 0) = None
   \<and> execute (Suc 0) 0 idle_state = Some (None, idle_state)
   \<and> was_successful (heap idle_state 0) = None"
  by (simp add: fresh_state_def idle_state_def CompositeCommand_init_def)

text \<open>
  C7 fails on the code. The delay is to be shown exactly when it is a string or a
  nonzero number, and the comment in \<open>Command.name\<close> says "only if its not zero". The
  getter tests \<open>> 0.0\<close>, so for every negative delay the name is the class name and the
  other parameters only: the delay, a nonzero number, is not shown.
\<close>

theorem negative_delay_hidden:
  assumes "map_of ps ''delay'' = Some (PyFloat (Finite q))" and "q < 0"
  shows "Command_name fs cls ps
           = Inr (cls @ concat (map (fragment fs) (filter (\<lambda>kv. fst kv \<noteq> ''delay'') ps)))"
  using assms by (simp add: Command_name_def name_items_concat Let_def)

theorem negative_delay_hidden_witness:
  "Command_name float_str_sample ''SetTemp''
     (params (Command_init ''SetTemp'' (reports ''SetTemp'' True ''ok'') ''stage'' (PyFloat (Finite (- 1)))))
   = Inr ''SetTemp receiver_name=stage''"
proof -
  let ?p = "params (Command_init ''SetTemp'' (reports ''SetTemp'' True ''ok'') ''stage''
                      (PyFloat (Finite (- 1))))"
  have p: "?p = [(''receiver_name'', PyStr ''stage''), (''delay'', PyFloat (Finite (- 1)))]"
    by (simp add: Command_init_def)
  have m: "map_of ?p ''delay'' = Some (PyFloat (Finite (- 1)))" by (simp add: p)
  have q: "(- 1 :: rat) < 0" by simp
  from negative_delay_hidden [OF m q, of float_str_sample "''SetTemp''"]
  show ?thesis by (simp add: p fragment_def)
qed

end
